theory Spec2Isabelle
  imports Complex_Main
begin

section \<open>The one-to-one video chat client (NotificationsMenu.tsx, component VideoChat)\<close>

text \<open>
  The component keeps its state in React state variables and refs and reacts to socket
  events with one handler per event. The handlers call the browser's RTCPeerConnection,
  which is not part of the repository: its answers are taken as a parameter (the record
  \<open>browser\<close>), and every call the handlers make is written to a call log, so that what
  reached the transport can be read off the state. A handler is modelled as running to
  completion; the interleaving of two handlers at an \<open>await\<close> is not modelled.
\<close>

type_synonym sdp = string
type_synonym ice = string
type_synonym track = string
type_synonym pc_id = nat

datatype pc_op =
    NewPeerConnection
  | AddTrack track
  | CreateOffer
  | CreateAnswer
  | SetLocalDescription sdp
  | SetRemoteDescription sdp
  | AddIceCandidate ice
  | Close

text \<open>A log entry: the connection object, the call, and whether the call succeeded.\<close>

type_synonym call_log = "(pc_id \<times> pc_op \<times> bool) list"

datatype 'a promise = Rejects | Resolves 'a

text \<open>
  The browser's side of every call, given the calls made so far. \<open>False\<close> and
  \<open>Rejects\<close> stand for a thrown exception or a rejected promise. \<open>createAnswer\<close>
  may resolve to a falsy value (\<open>None\<close>), the case the offer handler tests for.
\<close>

record browser =
  newPeerConnection :: "call_log \<Rightarrow> bool"
  addTrack :: "call_log \<Rightarrow> pc_id \<Rightarrow> track \<Rightarrow> bool"
  createOffer :: "call_log \<Rightarrow> pc_id \<Rightarrow> sdp promise"
  createAnswer :: "call_log \<Rightarrow> pc_id \<Rightarrow> sdp option promise"
  setLocalDescription :: "call_log \<Rightarrow> pc_id \<Rightarrow> sdp \<Rightarrow> bool"
  setRemoteDescription :: "call_log \<Rightarrow> pc_id \<Rightarrow> sdp \<Rightarrow> bool"
  addIceCandidate :: "call_log \<Rightarrow> pc_id \<Rightarrow> ice \<Rightarrow> bool"

text \<open>
  What the client emits on its socket. The payload of \<open>waiting\<close> (interests, device
  id, filters, profile) plays no part below and is left out.
\<close>

datatype client_event =
    WaitingEvent
  | OfferEvent sdp string
  | AnswerEvent sdp string
  | IceCandidateEvent ice string
  | ReportEvent string string

text \<open>The relayed messages as the handlers receive them; the relay adds the sender.\<close>

record offer_msg =
  offer :: sdp
  offer_from :: string

record answer_msg =
  answer :: sdp
  answer_from :: string

record candidate_msg =
  candidate :: ice
  candidate_from :: string

text \<open>
  \<open>socket\<close> is \<open>socketRef.current\<close> with its \<open>id\<close>: \<open>None\<close> when there is no
  socket, \<open>Some None\<close> when the socket has no id (not connected).
  \<open>peerConnectionRef\<close> holds the identity of the current RTCPeerConnection object;
  \<open>nextPc\<close> numbers the objects created by \<open>new RTCPeerConnection\<close>.
\<close>

record session =
  socket :: "string option option"
  partnerId :: "string option"
  isMatching :: bool
  isChatting :: bool
  localStream :: "track list option"
  localStreamRef :: "track list option"
  remoteStream :: "track list option"
  messages :: "string list"
  peerConnectionRef :: "pc_id option"
  nextPc :: pc_id
  calls :: call_log
  emitted :: "client_event list"
  toasts :: "string list"
  console :: "string list"
  unhandledRejections :: nat
  webrtcCleanups :: nat

text \<open>
  JavaScript's \<open><\<close> on two strings: the code units are compared from the left, and a
  proper prefix is smaller.
\<close>

fun str_lt :: "string \<Rightarrow> string \<Rightarrow> bool" where
  "str_lt [] [] = False"
| "str_lt [] (y # ys) = True"
| "str_lt (x # xs) [] = False"
| "str_lt (x # xs) (y # ys) =
     (if (of_char x :: nat) < of_char y then True
      else if (of_char y :: nat) < of_char x then False
      else str_lt xs ys)"

definition logCall :: "pc_id \<Rightarrow> pc_op \<Rightarrow> bool \<Rightarrow> session \<Rightarrow> session" where
  "logCall pc call ok s = s\<lparr>calls := calls s @ [(pc, call, ok)]\<rparr>"

definition emit :: "client_event \<Rightarrow> session \<Rightarrow> session" where
  \<comment> \<open>\<open>socketRef.current?.emit(...)\<close>\<close>
  "emit e s = (if socket s = None then s else s\<lparr>emitted := emitted s @ [e]\<rparr>)"

definition unhandled :: "session \<Rightarrow> session" where
  \<comment> \<open>the handler's promise rejects and nobody awaits it\<close>
  "unhandled s = s\<lparr>unhandledRejections := Suc (unhandledRejections s)\<rparr>"

text \<open>
  \<open>localStreamRef.current.getTracks().forEach(track => addTrack(track, ...))\<close>: the
  first call that throws ends the loop. The result says whether the loop finished.
\<close>

fun addTracks :: "browser \<Rightarrow> pc_id \<Rightarrow> track list \<Rightarrow> session \<Rightarrow> bool \<times> session" where
  "addTracks b pc [] s = (True, s)"
| "addTracks b pc (t # ts) s =
     (if addTrack b (calls s) pc t
      then addTracks b pc ts (logCall pc (AddTrack t) True s)
      else (False, logCall pc (AddTrack t) False s))"

text \<open>
  The body of the \<open>try\<close> block of \<open>handleMatchFound\<close>. The result says whether the
  block finished without an exception. The callbacks the block installs on the new
  connection (\<open>ontrack\<close>, \<open>onicecandidate\<close> and the two loggers of state changes) run
  later, on events of the browser, and are not modelled.
\<close>

definition matchFoundBody :: "browser \<Rightarrow> string \<Rightarrow> string \<Rightarrow> session \<Rightarrow> bool \<times> session" where
  "matchFoundBody b me partner s =
     (if \<not> newPeerConnection b (calls s)
      then (False, logCall (nextPc s) NewPeerConnection False s)
      else
        let pc = nextPc s;
            s1 = logCall pc NewPeerConnection True
                   (s\<lparr>peerConnectionRef := Some pc, nextPc := Suc pc\<rparr>)
        in case addTracks b pc (case localStreamRef s1 of None \<Rightarrow> [] | Some ts \<Rightarrow> ts) s1 of
             (False, s2) \<Rightarrow> (False, s2)
           | (True, s2) \<Rightarrow>
               if str_lt me partner
               then (case createOffer b (calls s2) pc of
                       Rejects \<Rightarrow> (False, logCall pc CreateOffer False s2)
                     | Resolves off \<Rightarrow>
                         let s3 = logCall pc CreateOffer True s2
                         in if setLocalDescription b (calls s3) pc off
                            then (True, emit (OfferEvent off partner)
                                          (logCall pc (SetLocalDescription off) True s3))
                            else (False, logCall pc (SetLocalDescription off) False s3))
               else (True, s2))"

definition handleMatchFound :: "browser \<Rightarrow> string \<Rightarrow> session \<Rightarrow> session" where
  "handleMatchFound b partner s =
     (case socket s of
        None \<Rightarrow> s
      | Some None \<Rightarrow> s
      | Some (Some me) \<Rightarrow>
          if me = [] then s
          else
            let s1 = s\<lparr>partnerId := Some partner, isMatching := False, isChatting := True\<rparr>
            in case matchFoundBody b me partner s1 of
                 (True, s2) \<Rightarrow> s2
               | (False, s2) \<Rightarrow>
                   s2\<lparr>console := console s2 @ [''Error in handleMatchFound:''],
                      toasts := toasts s2 @ [''Failed to establish peer connection'']\<rparr>)"

definition handleOffer :: "browser \<Rightarrow> offer_msg \<Rightarrow> session \<Rightarrow> session" where
  "handleOffer b m s =
     (case peerConnectionRef s of
        None \<Rightarrow> s
      | Some pc \<Rightarrow>
          if \<not> setRemoteDescription b (calls s) pc (offer m)
          then unhandled (logCall pc (SetRemoteDescription (offer m)) False s)
          else
            let s1 = logCall pc (SetRemoteDescription (offer m)) True s
            in case createAnswer b (calls s1) pc of
                 Rejects \<Rightarrow> unhandled (logCall pc CreateAnswer False s1)
               | Resolves None \<Rightarrow>
                   (logCall pc CreateAnswer True s1)
                     \<lparr>console := console s1 @ [''Failed to create answer'']\<rparr>
               | Resolves (Some ans) \<Rightarrow>
                   let s2 = logCall pc CreateAnswer True s1
                   in if setLocalDescription b (calls s2) pc ans
                      then emit (AnswerEvent ans (offer_from m))
                             (logCall pc (SetLocalDescription ans) True s2)
                      else unhandled (logCall pc (SetLocalDescription ans) False s2))"

definition handleAnswer :: "browser \<Rightarrow> answer_msg \<Rightarrow> session \<Rightarrow> session" where
  "handleAnswer b m s =
     (case peerConnectionRef s of
        None \<Rightarrow> s
      | Some pc \<Rightarrow>
          if setRemoteDescription b (calls s) pc (answer m)
          then logCall pc (SetRemoteDescription (answer m)) True s
          else unhandled (logCall pc (SetRemoteDescription (answer m)) False s))"

definition handleIceCandidate :: "browser \<Rightarrow> candidate_msg \<Rightarrow> session \<Rightarrow> session" where
  "handleIceCandidate b m s =
     (case peerConnectionRef s of
        None \<Rightarrow> s
      | Some pc \<Rightarrow>
          if addIceCandidate b (calls s) pc (candidate m)
          then logCall pc (AddIceCandidate (candidate m)) True s
          else unhandled (logCall pc (AddIceCandidate (candidate m)) False s))"

text \<open>
  \<open>skipPartner\<close> cleans up the WebRTCService object (which never sees the connection
  held in \<open>peerConnectionRef\<close>), clears the remote stream, the partner id and the chat
  messages, and asks for a new match. It does not touch \<open>peerConnectionRef\<close>.
\<close>

definition skipPartner :: "session \<Rightarrow> session" where
  "skipPartner s =
     emit WaitingEvent
       (s\<lparr>webrtcCleanups := Suc (webrtcCleanups s),
          remoteStream := None,
          partnerId := None,
          messages := []\<rparr>)"

definition cleanup :: "session \<Rightarrow> session" where
  "cleanup s =
     (case peerConnectionRef s of
        None \<Rightarrow> s
      | Some pc \<Rightarrow> (logCall pc Close True s)\<lparr>peerConnectionRef := None\<rparr>)"

text \<open>\<open>endChat\<close>: the full teardown (stopping the tracks themselves is not modelled).\<close>

definition endChat :: "session \<Rightarrow> session" where
  "endChat s =
     cleanup
       (s\<lparr>webrtcCleanups := Suc (webrtcCleanups s),
          localStream := None,
          remoteStream := None,
          partnerId := None,
          messages := [],
          isMatching := False,
          isChatting := False\<rparr>)"

text \<open>
  The session is idle when it is as \<open>endChat\<close> leaves it: no partner, not matching,
  not chatting, no peer connection.
\<close>

definition isIdle :: "session \<Rightarrow> bool" where
  "isIdle s \<longleftrightarrow>
     partnerId s = None \<and> \<not> isMatching s \<and> \<not> isChatting s \<and> peerConnectionRef s = None"

text \<open>A browser in which every call succeeds, and a session that has just connected.\<close>

definition okBrowser :: browser where
  "okBrowser =
     \<lparr>newPeerConnection = (\<lambda>_. True),
      addTrack = (\<lambda>_ _ _. True),
      createOffer = (\<lambda>_ _. Resolves ''offer-sdp''),
      createAnswer = (\<lambda>_ _. Resolves (Some ''answer-sdp'')),
      setLocalDescription = (\<lambda>_ _ _. True),
      setRemoteDescription = (\<lambda>_ _ _. True),
      addIceCandidate = (\<lambda>_ _ _. True)\<rparr>"

definition freshSession :: "string \<Rightarrow> session" where
  "freshSession me =
     \<lparr>socket = Some (Some me), partnerId = None, isMatching = True, isChatting = False,
      localStream = Some [''audio'', ''video''], localStreamRef = Some [''audio'', ''video''],
      remoteStream = None, messages = [], peerConnectionRef = None, nextPc = 0,
      calls = [], emitted = [], toasts = [], console = [],
      unhandledRejections = 0, webrtcCleanups = 0\<rparr>"


subsection \<open>Notions used to state the properties of the handlers\<close>

text \<open>The browser calls made by \<open>handleMatchFound\<close> all succeed.\<close>

definition offerCallsSucceed :: "browser \<Rightarrow> bool" where
  "offerCallsSucceed b \<longleftrightarrow>
     (\<forall>hist. newPeerConnection b hist) \<and>
     (\<forall>hist pc t. addTrack b hist pc t) \<and>
     (\<forall>hist pc. createOffer b hist pc \<noteq> Rejects) \<and>
     (\<forall>hist pc off. setLocalDescription b hist pc off)"

definition failedCalls :: "session \<Rightarrow> call_log" where
  "failedCalls s = filter (\<lambda>(pc, call, ok). \<not> ok) (calls s)"

text \<open>
  The relayed events of the socket, each handled by its handler, and a sequence of them
  handled one after the other.
\<close>

datatype relayed =
    RelayedOffer offer_msg
  | RelayedAnswer answer_msg
  | RelayedCandidate candidate_msg

fun receive :: "browser \<Rightarrow> relayed \<Rightarrow> session \<Rightarrow> session" where
  "receive b (RelayedOffer m) s = handleOffer b m s"
| "receive b (RelayedAnswer m) s = handleAnswer b m s"
| "receive b (RelayedCandidate m) s = handleIceCandidate b m s"

fun receiveAll :: "browser \<Rightarrow> relayed list \<Rightarrow> session \<Rightarrow> session" where
  "receiveAll b [] s = s"
| "receiveAll b (ev # evs) s = receiveAll b evs (receive b ev s)"

text \<open>The candidates among the events, in the order of receipt.\<close>

fun candidatesOf :: "relayed list \<Rightarrow> ice list" where
  "candidatesOf [] = []"
| "candidatesOf (RelayedCandidate m # evs) = candidate m # candidatesOf evs"
| "candidatesOf (ev # evs) = candidatesOf evs"

text \<open>The calls of \<open>addIceCandidate\<close> in a call log, successful or not, in order.\<close>

fun candidateCallsOf :: "call_log \<Rightarrow> (pc_id \<times> ice) list" where
  "candidateCallsOf [] = []"
| "candidateCallsOf ((pc, AddIceCandidate c, ok) # rest) = (pc, c) # candidateCallsOf rest"
| "candidateCallsOf (entry # rest) = candidateCallsOf rest"

definition candidateCalls :: "session \<Rightarrow> (pc_id \<times> ice) list" where
  "candidateCalls s = candidateCallsOf (calls s)"

text \<open>The pairing and the connection of a session are as they were.\<close>

definition sessionKept :: "session \<Rightarrow> session \<Rightarrow> bool" where
  "sessionKept s s' \<longleftrightarrow>
     partnerId s' = partnerId s \<and> isMatching s' = isMatching s
     \<and> isChatting s' = isChatting s \<and> peerConnectionRef s' = peerConnectionRef s"

fun isSetRemoteDescription :: "pc_op \<Rightarrow> bool" where
  "isSetRemoteDescription (SetRemoteDescription d) = True"
| "isSetRemoteDescription _ = False"

definition remoteDescriptionApplied :: "call_log \<Rightarrow> pc_id \<Rightarrow> bool" where
  "remoteDescriptionApplied hist pc =
     list_ex (\<lambda>(p, call, ok). p = pc \<and> ok \<and> isSetRemoteDescription call) hist"

text \<open>
  A browser that, as RTCPeerConnection does, rejects \<open>addIceCandidate\<close> while the
  connection has no remote description; one whose \<open>createOffer\<close> rejects; and one
  that rejects every remote description and every candidate.
\<close>

definition strictBrowser :: browser where
  "strictBrowser =
     okBrowser\<lparr>addIceCandidate := (\<lambda>hist pc c. remoteDescriptionApplied hist pc)\<rparr>"

definition noOfferBrowser :: browser where
  "noOfferBrowser = okBrowser\<lparr>createOffer := (\<lambda>hist pc. Rejects)\<rparr>"

definition noRemoteBrowser :: browser where
  "noRemoteBrowser =
     okBrowser\<lparr>setRemoteDescription := (\<lambda>hist pc d. False),
               addIceCandidate := (\<lambda>hist pc c. False)\<rparr>"

text \<open>
  A client matched with \<open>old\<close> that has skipped, and the same client matched again
  with \<open>new\<close>; a client that has sent its offer and waits for the answer.
\<close>

definition skippedSession :: session where
  "skippedSession = skipPartner (handleMatchFound okBrowser ''old'' (freshSession ''me''))"

definition rematchedSession :: session where
  "rematchedSession = handleMatchFound okBrowser ''new'' skippedSession"

definition offeringSession :: session where
  "offeringSession = handleMatchFound strictBrowser ''xyz'' (freshSession ''abc'')"


section \<open>Rooms (RoomsPanel, RoomCard and the video room page)\<close>

text \<open>
  The room tables live in an external store; the model keeps the three tables as lists
  of rows. Timestamps are milliseconds since the epoch, as \<open>Date.getTime()\<close> gives
  them. The store is taken to answer every request (no network or permission error):
  the only store error modelled is \<open>.single()\<close> finding no row, or more than one.
\<close>

datatype room_status = Waiting | Active | Ended

datatype participant_status = Invited | Joined | Busy | Kicked

record room =
  r_id :: string
  r_name :: string
  r_group_id :: string
  r_host_id :: string
  r_password :: "string option"
  r_status :: room_status
  r_created_at :: int
  r_ended_at :: "int option"
  r_video_chat_url :: string

record room_participant =
  p_room_id :: string
  p_user_id :: string
  p_status :: participant_status
  p_joined_at :: "int option"

record room_activity_row =
  a_room_id :: string
  a_last_active :: "int option"
  a_participant_count :: int

record store =
  rooms :: "room list"
  room_participants :: "room_participant list"
  room_activity :: "room_activity_row list"

datatype ui_effect =
    ToastError string
  | ToastSuccess string
  | RouterPush string
  | ShowPasswordModal
  | ClosePasswordModal

text \<open>\<open>.single()\<close>: the row when the query has exactly one, an error otherwise.\<close>

fun single :: "'a list \<Rightarrow> 'a option" where
  "single [x] = Some x"
| "single _ = None"

definition singleRowError :: string where
  "singleRowError = ''JSON object requested, multiple (or no) rows returned''"

definition orElse :: "string \<Rightarrow> string \<Rightarrow> string" where
  \<comment> \<open>\<open>a || b\<close> on strings: the empty string is falsy\<close>
  "orElse a b = (if a = [] then b else a)"

definition truthy :: "string option \<Rightarrow> bool" where
  \<comment> \<open>\<open>null\<close>, \<open>undefined\<close> and the empty string are falsy\<close>
  "truthy v = (case v of None \<Rightarrow> False | Some t \<Rightarrow> t \<noteq> [])"

subsection \<open>RoomsPanel: the expiration sweep\<close>

definition joinedParticipants :: "store \<Rightarrow> string \<Rightarrow> room_participant list" where
  "joinedParticipants db rid =
     filter (\<lambda>p. p_room_id p = rid \<and> p_status p = Joined) (room_participants db)"

definition lastActiveTime :: "store \<Rightarrow> room \<Rightarrow> int" where
  "lastActiveTime db room =
     (case single (filter (\<lambda>a. a_room_id a = r_id room) (room_activity db)) of
        None \<Rightarrow> r_created_at room
      | Some a \<Rightarrow> (case a_last_active a of None \<Rightarrow> r_created_at room | Some t \<Rightarrow> t))"

text \<open>The body of the loop over the rooms the query returned.\<close>

definition expireRoom :: "int \<Rightarrow> room \<Rightarrow> store \<Rightarrow> store" where
  "expireRoom now room db =
     (if length (joinedParticipants db (r_id room)) \<le> 1
      then
        (if lastActiveTime db room < now - 5 * 60000
         then db\<lparr>rooms :=
                   map (\<lambda>r. if r_id r = r_id room
                             then r\<lparr>r_status := Ended, r_ended_at := Some now\<rparr> else r)
                       (rooms db)\<rparr>
         else db)
      else db)"

fun expireLoop :: "int \<Rightarrow> room list \<Rightarrow> store \<Rightarrow> store" where
  "expireLoop now [] db = db"
| "expireLoop now (room # rest) db = expireLoop now rest (expireRoom now room db)"

definition roomsToExpire :: "int \<Rightarrow> store \<Rightarrow> room list" where
  "roomsToExpire now db =
     filter (\<lambda>r. (r_status r = Waiting \<or> r_status r = Active)
                 \<and> r_created_at r < now - 10 * 60000)
            (rooms db)"

definition cleanupExpiredRooms :: "int \<Rightarrow> store \<Rightarrow> store" where
  "cleanupExpiredRooms now db = expireLoop now (roomsToExpire now db) db"

subsection \<open>RoomsPanel: creating and joining a room, marking busy\<close>

definition createRoom ::
  "int \<Rightarrow> string \<Rightarrow> string option \<Rightarrow> string \<Rightarrow> string \<Rightarrow> string \<Rightarrow> store
     \<Rightarrow> store \<times> ui_effect list" where
  "createRoom now roomId currentUserId selectedGroup roomName roomPassword db =
     (case currentUserId of
        None \<Rightarrow> (db, [])
      | Some uid \<Rightarrow>
          if uid = [] \<or> selectedGroup = [] \<or> roomName = [] then (db, [])
          else
            (db\<lparr>rooms := rooms db @
                   [\<lparr>r_id = roomId, r_name = roomName, r_group_id = selectedGroup,
                     r_host_id = uid,
                     r_password = (if roomPassword = [] then None else Some roomPassword),
                     r_status = Waiting, r_created_at = now, r_ended_at = None,
                     r_video_chat_url = ''/video-chat/'' @ roomId\<rparr>],
                 room_activity := room_activity db @
                   [\<lparr>a_room_id = roomId, a_last_active = Some now,
                     a_participant_count = 1\<rparr>],
                 room_participants := room_participants db @
                   [\<lparr>p_room_id = roomId, p_user_id = uid, p_status = Joined,
                     p_joined_at = Some now\<rparr>]\<rparr>,
             [ToastSuccess ''Room created successfully'']))"

text \<open>
  \<open>.update(...).eq('room_id', roomId).eq('user_id', currentUserId)\<close>: every row of the
  pair is updated, and no row when there is none (this is not an upsert).
\<close>

definition setParticipantStatus ::
  "string \<Rightarrow> string option \<Rightarrow> participant_status \<Rightarrow> store \<Rightarrow> store" where
  "setParticipantStatus rid uid st db =
     db\<lparr>room_participants :=
          map (\<lambda>p. if p_room_id p = rid \<and> Some (p_user_id p) = uid
                    then p\<lparr>p_status := st\<rparr> else p)
              (room_participants db)\<rparr>"

text \<open>
  \<open>joinRoom\<close> of RoomsPanel. The password argument is optional (\<open>None\<close> is
  \<open>undefined\<close>). Every error is caught inside and shown as a toast.
\<close>

definition joinRoom ::
  "string option \<Rightarrow> string \<Rightarrow> string option \<Rightarrow> store \<Rightarrow> store \<times> ui_effect list" where
  "joinRoom currentUserId roomId password db =
     (case single (filter (\<lambda>r. r_id r = roomId) (rooms db)) of
        None \<Rightarrow> (db, [ToastError (orElse singleRowError ''Failed to join room'')])
      | Some room \<Rightarrow>
          if truthy (r_password room) \<and> r_password room \<noteq> password
          then (db, [ToastError (orElse ''Incorrect password'' ''Failed to join room'')])
          else (setParticipantStatus roomId currentUserId Joined db,
                [RouterPush (r_video_chat_url room)]))"

definition markAsBusy :: "string option \<Rightarrow> string \<Rightarrow> store \<Rightarrow> store \<times> ui_effect list" where
  "markAsBusy currentUserId roomId db =
     (setParticipantStatus roomId currentUserId Busy db, [ToastSuccess ''Marked as busy''])"

subsection \<open>RoomCard\<close>

text \<open>The \<open>room\<close> prop of the card: the row as the panel last fetched it.\<close>

record card_room =
  c_id :: string
  c_password :: "string option"
  c_status :: room_status
  c_created_at :: int
  c_last_active :: "int option"
  c_participant_count :: int

text \<open>
  \<open>handleJoin\<close>, with the panel's \<open>joinRoom\<close> as its \<open>onJoin\<close>; \<open>password\<close> is the
  text of the card's password field.
\<close>

definition handleJoin ::
  "card_room \<Rightarrow> string option \<Rightarrow> string \<Rightarrow> store \<Rightarrow> store \<times> ui_effect list" where
  "handleJoin room currentUserId password db =
     (if \<not> truthy currentUserId then (db, [ToastError ''Please sign in to join the room''])
      else if c_status room = Ended then (db, [ToastError ''This room has ended''])
      else if truthy (c_password room) \<and> password = [] then (db, [ShowPasswordModal])
      else
        (case joinRoom currentUserId (c_id room) (Some password) db of
           (db', effects) \<Rightarrow> (db', effects @ [ClosePasswordModal])))"

text \<open>
  \<open>getExpirationStatus\<close>. The source divides the millisecond differences by 60000 in
  floating point; the quotients are taken as exact rationals here.
\<close>

definition getExpirationStatus :: "int \<Rightarrow> card_room \<Rightarrow> string option" where
  "getExpirationStatus now room =
     (let createdAt = c_created_at room;
          lastActive = (case c_last_active room of None \<Rightarrow> createdAt | Some t \<Rightarrow> t);
          minutesSinceCreation = (of_int (now - createdAt) :: rat) / 60000;
          minutesSinceLastActive = (of_int (now - lastActive) :: rat) / 60000
      in if minutesSinceCreation \<ge> 10 then Some ''Expired (>10min)''
         else if c_participant_count room \<le> 1 \<and> minutesSinceLastActive \<ge> 5
              then Some ''Expired (inactive)''
         else if minutesSinceCreation \<ge> 8 then Some ''Expires soon''
         else None)"

subsection \<open>The video room page\<close>

text \<open>
  \<open>joinRoom\<close> of the page \<open>/video-chat/[roomId]\<close>; \<open>user\<close> is the signed-in
  account. An error is thrown on to the caller, which shows its message.
\<close>

definition pageJoinRoom :: "int \<Rightarrow> string option \<Rightarrow> string \<Rightarrow> store \<Rightarrow> string + store" where
  "pageJoinRoom now user roomId db =
     (case user of
        None \<Rightarrow> Inl ''Please sign in to join the room''
      | Some uid \<Rightarrow>
          (case single (filter (\<lambda>p. p_room_id p = roomId \<and> p_user_id p = uid)
                               (room_participants db)) of
             None \<Rightarrow> Inl ''You do not have access to this room''
           | Some participant \<Rightarrow>
               Inr (db\<lparr>rooms :=
                         map (\<lambda>r. if r_id r = roomId then r\<lparr>r_status := Active\<rparr> else r)
                             (rooms db),
                       room_participants :=
                         map (\<lambda>p. if p_room_id p = roomId \<and> p_user_id p = uid
                                   then p\<lparr>p_status := Joined, p_joined_at := Some now\<rparr>
                                   else p)
                             (room_participants db)\<rparr>)))"

text \<open>The order of the room states: a room is meant to move forward only.\<close>

fun statusRank :: "room_status \<Rightarrow> nat" where
  "statusRank Waiting = 0"
| "statusRank Active = 1"
| "statusRank Ended = 2"


subsection \<open>Notions used to state the properties of the rooms\<close>

text \<open>The two tests of the sweep's loop body, and the update it makes.\<close>

definition shouldExpire :: "int \<Rightarrow> store \<Rightarrow> room \<Rightarrow> bool" where
  "shouldExpire now db room \<longleftrightarrow>
     length (joinedParticipants db (r_id room)) \<le> 1
     \<and> lastActiveTime db room < now - 5 * 60000"

definition endRoom :: "int \<Rightarrow> room \<Rightarrow> room" where
  "endRoom now r = r\<lparr>r_status := Ended, r_ended_at := Some now\<rparr>"

text \<open>Rows of one room \<open>r1\<close>, created at time 0 by its host \<open>u1\<close>.\<close>

definition exampleRoom :: "room_status \<Rightarrow> string option \<Rightarrow> room" where
  "exampleRoom st pw =
     \<lparr>r_id = ''r1'', r_name = ''standup'', r_group_id = ''g1'', r_host_id = ''u1'',
      r_password = pw, r_status = st, r_created_at = 0, r_ended_at = None,
      r_video_chat_url = ''/video-chat/r1''\<rparr>"

definition participantRow :: "string \<Rightarrow> participant_status \<Rightarrow> room_participant" where
  "participantRow uid st =
     \<lparr>p_room_id = ''r1'', p_user_id = uid, p_status = st, p_joined_at = Some 0\<rparr>"

definition activityRow :: "int \<Rightarrow> int \<Rightarrow> room_activity_row" where
  "activityRow t n = \<lparr>a_room_id = ''r1'', a_last_active = Some t, a_participant_count = n\<rparr>"

text \<open>
  The card's view of a room, as the panel builds it from a row of the view
  \<open>rooms_with_host\<close>: the fields of the room and the participant count of the view.
  The panel does not pass \<open>last_active\<close> on to the card.
\<close>

definition cardOf :: "room \<Rightarrow> int \<Rightarrow> card_room" where
  "cardOf r n =
     \<lparr>c_id = r_id r, c_password = r_password r, c_status = r_status r,
      c_created_at = r_created_at r, c_last_active = None,
      c_participant_count = n\<rparr>"

text \<open>An active room with two joined participants, last active at minute 10.\<close>

definition twoJoinedStore :: store where
  "twoJoinedStore =
     \<lparr>rooms = [exampleRoom Active None],
      room_participants = [participantRow ''u1'' Joined, participantRow ''u2'' Joined],
      room_activity = [activityRow 600000 2]\<rparr>"

text \<open>A waiting room in which only the host ever joined, never active after creation.\<close>

definition hostOnlyStore :: store where
  "hostOnlyStore =
     \<lparr>rooms = [exampleRoom Waiting None],
      room_participants = [participantRow ''u1'' Joined],
      room_activity = [activityRow 0 1]\<rparr>"

text \<open>An ended room to which \<open>u2\<close> was invited; a waiting room with a password.\<close>

definition endedRoomStore :: store where
  "endedRoomStore =
     \<lparr>rooms = [(exampleRoom Ended None)\<lparr>r_ended_at := Some 660000\<rparr>],
      room_participants = [participantRow ''u1'' Joined, participantRow ''u2'' Invited],
      room_activity = [activityRow 0 1]\<rparr>"

definition lockedRoomStore :: store where
  "lockedRoomStore =
     \<lparr>rooms = [exampleRoom Waiting (Some ''secret'')],
      room_participants = [participantRow ''u1'' Joined, participantRow ''u2'' Invited],
      room_activity = [activityRow 0 1]\<rparr>"


section \<open>Properties of the video chat client\<close>

subsection \<open>The order on identifiers\<close>

lemma str_lt_total: "a \<noteq> b \<Longrightarrow> str_lt a b \<or> str_lt b a"
  by (induction a b rule: str_lt.induct) auto

lemma str_lt_asym: "str_lt a b \<Longrightarrow> \<not> str_lt b a"
  by (induction a b rule: str_lt.induct) (auto split: if_splits)

subsection \<open>Adding the local tracks\<close>

lemma addTracks_keeps:
  "addTracks b pc ts s = (ok, s') \<Longrightarrow>
     emitted s' = emitted s \<and> socket s' = socket s \<and> toasts s' = toasts s
     \<and> partnerId s' = partnerId s \<and> isChatting s' = isChatting s
     \<and> isMatching s' = isMatching s \<and> peerConnectionRef s' = peerConnectionRef s"
  by (induction ts arbitrary: s) (auto simp: logCall_def split: if_splits)

lemma addTracks_succeeds:
  "\<forall>hist p t. addTrack b hist p t \<Longrightarrow> fst (addTracks b pc ts s)"
  by (induction ts arbitrary: s) auto

lemma addTracks_failed:
  "addTracks b pc ts s = (ok, s') \<Longrightarrow>
     (ok \<longrightarrow> failedCalls s' = failedCalls s) \<and>
     (\<not> ok \<longrightarrow> length (failedCalls s') = Suc (length (failedCalls s)))"
  by (induction ts arbitrary: s) (auto simp: logCall_def failedCalls_def split: if_splits)

subsection \<open>Who sends the offer\<close>

lemma matchFoundBody_emitted_other:
  "\<not> str_lt me partner \<Longrightarrow> emitted (snd (matchFoundBody b me partner s)) = emitted s"
  by (auto simp: matchFoundBody_def logCall_def Let_def split: prod.splits bool.splits
      dest!: addTracks_keeps)

lemma matchFoundBody_emitted_initiator:
  assumes "offerCallsSucceed b" "str_lt me partner" "socket s \<noteq> None"
  shows "\<exists>off. matchFoundBody b me partner s = (True, snd (matchFoundBody b me partner s)) \<and>
     emitted (snd (matchFoundBody b me partner s)) = emitted s @ [OfferEvent off partner]"
proof -
  let ?s1 = "logCall (nextPc s) NewPeerConnection True
                   (s\<lparr>peerConnectionRef := Some (nextPc s), nextPc := Suc (nextPc s)\<rparr>)"
  let ?ts = "case localStreamRef ?s1 of None \<Rightarrow> [] | Some ts \<Rightarrow> ts"
  obtain ok s2 where a: "addTracks b (nextPc s) ?ts ?s1 = (ok, s2)" by fastforce
  have ok: "ok" using addTracks_succeeds[of b "nextPc s" ?ts ?s1] assms(1) a
    by (simp add: offerCallsSucceed_def)
  have k: "emitted s2 = emitted s" "socket s2 = socket s"
    using addTracks_keeps[OF a] by (simp_all add: logCall_def)
  obtain off where o: "createOffer b (calls s2) (nextPc s) = Resolves off"
    using assms(1)
    by (cases "createOffer b (calls s2) (nextPc s)") (auto simp: offerCallsSucceed_def)
  show ?thesis
    using assms a ok k o
    by (auto simp: matchFoundBody_def Let_def offerCallsSucceed_def emit_def logCall_def)
qed

lemma handleMatchFound_emitted_other:
  "socket s = Some (Some me) \<Longrightarrow> \<not> str_lt me partner \<Longrightarrow>
     emitted (handleMatchFound b partner s) = emitted s"
  using matchFoundBody_emitted_other
          [of me partner b "s\<lparr>partnerId := Some partner, isMatching := False, isChatting := True\<rparr>"]
  by (auto simp: handleMatchFound_def Let_def split: prod.splits bool.splits)

lemma handleMatchFound_emitted_initiator:
  assumes "socket s = Some (Some me)" "me \<noteq> []" "str_lt me partner" "offerCallsSucceed b"
  shows "\<exists>off. emitted (handleMatchFound b partner s) = emitted s @ [OfferEvent off partner]"
  using matchFoundBody_emitted_initiator
          [of b me partner "s\<lparr>partnerId := Some partner, isMatching := False, isChatting := True\<rparr>"]
        assms
  by (auto simp: handleMatchFound_def Let_def split: prod.splits bool.splits)

lemma okBrowser_offerCallsSucceed: "offerCallsSucceed okBrowser"
  by (simp add: offerCallsSucceed_def okBrowser_def)

text \<open>
  Claim C3. Two matched clients with the distinct connection identifiers \<open>a\<close> and
  \<open>b\<close> each handle \<open>match-found\<close> for the other. Whatever their states and whichever
  is handled first, the client whose identifier is the smaller one in the order of the
  code units emits exactly one offer, addressed to the other, and the other client emits
  nothing (the browser calls of the handler succeeding). With \<open>abc\<close> and \<open>xyz\<close> it is
  \<open>abc\<close> that sends the offer.
\<close>

theorem offer_initiator_is_smaller_id:
  assumes "socket sa = Some (Some a)" and "socket sb = Some (Some b)"
    and "a \<noteq> []" and "b \<noteq> []" and "a \<noteq> b"
    and "offerCallsSucceed ba" and "offerCallsSucceed bb"
  shows "if str_lt a b
         then (\<exists>off. emitted (handleMatchFound ba b sa) = emitted sa @ [OfferEvent off b])
              \<and> emitted (handleMatchFound bb a sb) = emitted sb
         else str_lt b a
              \<and> (\<exists>off. emitted (handleMatchFound bb a sb) = emitted sb @ [OfferEvent off a])
              \<and> emitted (handleMatchFound ba b sa) = emitted sa"
proof (cases "str_lt a b")
  case True
  then have "\<not> str_lt b a" by (rule str_lt_asym)
  with True assms show ?thesis
    by (simp add: handleMatchFound_emitted_other handleMatchFound_emitted_initiator)
next
  case False
  then have "str_lt b a" using str_lt_total[of a b] assms(5) by blast
  with False assms show ?thesis
    by (simp add: handleMatchFound_emitted_other handleMatchFound_emitted_initiator)
qed

theorem offer_initiator_is_smaller_id_witness:
  "str_lt ''abc'' ''xyz''
   \<and> emitted (handleMatchFound okBrowser ''xyz'' (freshSession ''abc''))
       = [OfferEvent ''offer-sdp'' ''xyz'']
   \<and> emitted (handleMatchFound okBrowser ''abc'' (freshSession ''xyz'')) = []"
proof -
  have h: "socket (freshSession ''abc'') = Some (Some ''abc'')"
          "socket (freshSession ''xyz'') = Some (Some ''xyz'')"
          "''abc'' \<noteq> []" "''xyz'' \<noteq> []" "''abc'' \<noteq> ''xyz''"
    by (simp_all add: freshSession_def)
  have lt: "str_lt ''abc'' ''xyz''" by simp
  from offer_initiator_is_smaller_id
         [OF h okBrowser_offerCallsSucceed okBrowser_offerCallsSucceed] lt
  have "(\<exists>off. emitted (handleMatchFound okBrowser ''xyz'' (freshSession ''abc''))
            = emitted (freshSession ''abc'') @ [OfferEvent off ''xyz''])
        \<and> emitted (handleMatchFound okBrowser ''abc'' (freshSession ''xyz''))
            = emitted (freshSession ''xyz'')"
    by simp
  moreover have "emitted (handleMatchFound okBrowser ''xyz'' (freshSession ''abc''))
                   = [OfferEvent ''offer-sdp'' ''xyz'']"
    by (simp add: handleMatchFound_def matchFoundBody_def freshSession_def okBrowser_def
          logCall_def emit_def Let_def)
  ultimately show ?thesis using lt by (simp add: freshSession_def)
qed

subsection \<open>An offer before the match\<close>

text \<open>
  Claim C10. When an offer arrives while \<open>peerConnectionRef\<close> is empty, the offer
  handler returns at once: the state is unchanged, so no peer connection is created, no
  browser call is made, no answer is emitted and no error is shown.
\<close>

theorem handleOffer_without_connection:
  "peerConnectionRef s = None \<Longrightarrow>
     handleOffer b m s = s
     \<and> peerConnectionRef (handleOffer b m s) = None
     \<and> emitted (handleOffer b m s) = emitted s
     \<and> calls (handleOffer b m s) = calls s
     \<and> toasts (handleOffer b m s) = toasts s"
  by (simp add: handleOffer_def)

theorem handleOffer_without_connection_witness:
  "peerConnectionRef (freshSession ''abc'') = None
   \<and> handleOffer okBrowser \<lparr>offer = ''offer-sdp'', offer_from = ''xyz''\<rparr> (freshSession ''abc'')
       = freshSession ''abc''"
  using handleOffer_without_connection
          [of "freshSession ''abc''" okBrowser "\<lparr>offer = ''offer-sdp'', offer_from = ''xyz''\<rparr>"]
  by (simp add: freshSession_def)


subsection \<open>Messages from somebody who is not the partner\<close>

text \<open>
  A client matched with \<open>old\<close> skips and is matched with \<open>new\<close>. An answer or a
  candidate of \<open>old\<close> that arrives afterwards is applied to the connection made for
  \<open>new\<close>: the handlers do not compare the sender with the partner.
\<close>

theorem stale_message_counterexample:
  "partnerId rematchedSession = Some ''new''
   \<and> peerConnectionRef rematchedSession = Some 1
   \<and> handleAnswer okBrowser \<lparr>answer = ''stale-answer'', answer_from = ''old''\<rparr>
         rematchedSession
       \<noteq> rematchedSession
   \<and> calls (handleAnswer okBrowser \<lparr>answer = ''stale-answer'', answer_from = ''old''\<rparr>
              rematchedSession)
       = calls rematchedSession @ [(1, SetRemoteDescription ''stale-answer'', True)]
   \<and> calls (handleIceCandidate okBrowser
              \<lparr>candidate = ''stale-candidate'', candidate_from = ''old''\<rparr> rematchedSession)
       = calls rematchedSession @ [(1, AddIceCandidate ''stale-candidate'', True)]"
  by (simp add: rematchedSession_def skippedSession_def skipPartner_def handleAnswer_def
        handleIceCandidate_def handleMatchFound_def matchFoundBody_def freshSession_def
        okBrowser_def logCall_def emit_def Let_def)

text \<open>
  Claim C4, amended. The handlers of offer, answer and candidate do not compare the
  sender of a relayed message with the current partner. When the client has a peer
  connection, the message is applied to that connection whoever sent it: the remote
  description of an offer or an answer is set on it, a candidate is added to it. The
  sender plays no part in handling an answer or a candidate, and in handling an offer it
  is only the destination of the answer. So a message of an old pairing that arrives
  after the client has been matched again is applied to the connection of the new
  pairing. A message is discarded, the state unchanged, only when the client has no peer
  connection.
\<close>

theorem relayed_messages_not_checked:
  "(peerConnectionRef s = None \<longrightarrow>
      handleOffer b om s = s \<and> handleAnswer b am s = s \<and> handleIceCandidate b cm s = s)
   \<and> (peerConnectionRef s = Some pc \<longrightarrow>
      take (Suc (length (calls s))) (calls (handleOffer b om s))
        = calls s @ [(pc, SetRemoteDescription (offer om),
                      setRemoteDescription b (calls s) pc (offer om))]
      \<and> calls (handleAnswer b am s)
        = calls s @ [(pc, SetRemoteDescription (answer am),
                      setRemoteDescription b (calls s) pc (answer am))]
      \<and> calls (handleIceCandidate b cm s)
        = calls s @ [(pc, AddIceCandidate (candidate cm),
                      addIceCandidate b (calls s) pc (candidate cm))])
   \<and> handleAnswer b (am\<lparr>answer_from := x\<rparr>) s = handleAnswer b am s
   \<and> handleIceCandidate b (cm\<lparr>candidate_from := x\<rparr>) s = handleIceCandidate b cm s
   \<and> (handleOffer b (om\<lparr>offer_from := x\<rparr>) s)\<lparr>emitted := e\<rparr>
       = (handleOffer b om s)\<lparr>emitted := e\<rparr>"
  by (auto simp: handleOffer_def handleAnswer_def handleIceCandidate_def
        logCall_def unhandled_def emit_def Let_def split: option.splits promise.splits)

theorem relayed_messages_not_checked_witness:
  "partnerId rematchedSession = Some ''new''
   \<and> peerConnectionRef rematchedSession = Some 1
   \<and> calls (handleIceCandidate okBrowser \<lparr>candidate = ''c'', candidate_from = ''old''\<rparr>
              rematchedSession)
       = calls rematchedSession @ [(1, AddIceCandidate ''c'', True)]
   \<and> handleIceCandidate okBrowser \<lparr>candidate = ''c'', candidate_from = ''old''\<rparr>
         rematchedSession
       = handleIceCandidate okBrowser \<lparr>candidate = ''c'', candidate_from = ''new''\<rparr>
           rematchedSession
   \<and> handleAnswer okBrowser \<lparr>answer = ''a'', answer_from = ''old''\<rparr> rematchedSession
       = handleAnswer okBrowser \<lparr>answer = ''a'', answer_from = ''new''\<rparr> rematchedSession
   \<and> peerConnectionRef (freshSession ''me'') = None
   \<and> handleIceCandidate okBrowser \<lparr>candidate = ''c'', candidate_from = ''old''\<rparr>
         (freshSession ''me'')
       = freshSession ''me''"
proof -
  have pc: "peerConnectionRef rematchedSession = Some 1"
    by (simp add: rematchedSession_def skippedSession_def skipPartner_def
          handleMatchFound_def matchFoundBody_def freshSession_def okBrowser_def
          logCall_def emit_def Let_def)
  have p: "partnerId rematchedSession = Some ''new''"
    by (simp add: rematchedSession_def skippedSession_def skipPartner_def
          handleMatchFound_def matchFoundBody_def freshSession_def okBrowser_def
          logCall_def emit_def Let_def)
  have n: "peerConnectionRef (freshSession ''me'') = None"
    by (simp add: freshSession_def)
  have ok: "addIceCandidate okBrowser (calls rematchedSession) 1 ''c''"
    by (simp add: okBrowser_def)
  from relayed_messages_not_checked
         [of rematchedSession okBrowser "\<lparr>offer = ''o'', offer_from = ''new''\<rparr>"
             "\<lparr>answer = ''a'', answer_from = ''new''\<rparr>"
             "\<lparr>candidate = ''c'', candidate_from = ''new''\<rparr>" 1 "''old''" "[]"]
       relayed_messages_not_checked
         [of "freshSession ''me''" okBrowser "\<lparr>offer = ''o'', offer_from = ''old''\<rparr>"
             "\<lparr>answer = ''a'', answer_from = ''old''\<rparr>"
             "\<lparr>candidate = ''c'', candidate_from = ''old''\<rparr>" 0 "''new''" "[]"]
       pc p n ok
  show ?thesis by simp
qed

text \<open>
  \<open>endChat\<close> closes the connection and empties \<open>peerConnectionRef\<close>; \<open>skipPartner\<close>
  leaves both as they are.
\<close>

lemma skipPartner_keeps_connection:
  "peerConnectionRef (skipPartner s) = peerConnectionRef s \<and> calls (skipPartner s) = calls s"
  by (simp add: skipPartner_def emit_def)

lemma endChat_closes_connection: "peerConnectionRef (endChat s) = None"
  by (simp add: endChat_def cleanup_def logCall_def split: option.splits)

subsection \<open>Candidates that arrive before the remote description\<close>

text \<open>
  The client \<open>abc\<close> has sent its offer to \<open>xyz\<close> and has no remote description yet.
  A candidate that arrives now is handed to \<open>addIceCandidate\<close> at once, which the
  browser rejects; when the answer arrives, only the remote description is set. The
  candidate is not kept and is never applied.
\<close>

theorem early_candidate_counterexample:
  "peerConnectionRef offeringSession = Some 0
   \<and> \<not> remoteDescriptionApplied (calls offeringSession) 0
   \<and> calls (handleAnswer strictBrowser \<lparr>answer = ''answer-sdp'', answer_from = ''xyz''\<rparr>
              (handleIceCandidate strictBrowser \<lparr>candidate = ''c1'', candidate_from = ''xyz''\<rparr>
                 offeringSession))
       = calls offeringSession
           @ [(0, AddIceCandidate ''c1'', False),
              (0, SetRemoteDescription ''answer-sdp'', True)]"
  by (simp add: offeringSession_def handleAnswer_def handleIceCandidate_def strictBrowser_def
        handleMatchFound_def matchFoundBody_def freshSession_def okBrowser_def
        remoteDescriptionApplied_def unhandled_def logCall_def emit_def Let_def)

lemma candidateCallsOf_append:
  "candidateCallsOf (xs @ ys) = candidateCallsOf xs @ candidateCallsOf ys"
  by (induction xs rule: candidateCallsOf.induct) simp_all

lemma handleIceCandidate_calls:
  "peerConnectionRef s = Some pc \<Longrightarrow>
     calls (handleIceCandidate b m s)
       = calls s @ [(pc, AddIceCandidate (candidate m),
                     addIceCandidate b (calls s) pc (candidate m))]"
  by (simp add: handleIceCandidate_def logCall_def unhandled_def)

lemma handleIceCandidate_candidateCalls:
  "peerConnectionRef s = Some pc \<Longrightarrow>
     candidateCalls (handleIceCandidate b m s) = candidateCalls s @ [(pc, candidate m)]"
  by (simp add: candidateCalls_def handleIceCandidate_calls candidateCallsOf_append)

lemma handleAnswer_candidateCalls:
  "candidateCalls (handleAnswer b m s) = candidateCalls s"
  by (simp add: candidateCalls_def handleAnswer_def logCall_def unhandled_def
        candidateCallsOf_append split: option.splits)

lemma handleOffer_candidateCalls:
  "candidateCalls (handleOffer b m s) = candidateCalls s"
  by (simp add: candidateCalls_def handleOffer_def logCall_def unhandled_def emit_def Let_def
        candidateCallsOf_append split: option.splits promise.splits)

lemma receive_peerConnectionRef:
  "peerConnectionRef (receive b ev s) = peerConnectionRef s"
  by (cases ev)
     (simp_all add: handleOffer_def handleAnswer_def handleIceCandidate_def logCall_def
        unhandled_def emit_def Let_def split: option.splits promise.splits)

lemma receiveAll_candidateCalls:
  "peerConnectionRef s = Some pc \<Longrightarrow>
     candidateCalls (receiveAll b evs s)
       = candidateCalls s @ map (\<lambda>c. (pc, c)) (candidatesOf evs)"
proof (induction evs arbitrary: s)
  case Nil
  then show ?case by simp
next
  case (Cons ev evs)
  have pc: "peerConnectionRef (receive b ev s) = Some pc"
    using Cons.prems by (simp add: receive_peerConnectionRef)
  show ?case
  proof (cases ev)
    case (RelayedOffer m)
    with Cons.IH[OF pc] show ?thesis by (simp add: handleOffer_candidateCalls)
  next
    case (RelayedAnswer m)
    with Cons.IH[OF pc] show ?thesis by (simp add: handleAnswer_candidateCalls)
  next
    case (RelayedCandidate m)
    with Cons.IH[OF pc] Cons.prems show ?thesis
      by (simp add: handleIceCandidate_candidateCalls)
  qed
qed

lemma receiveAll_without_connection:
  "peerConnectionRef s = None \<Longrightarrow> receiveAll b evs s = s"
proof (induction evs)
  case Nil
  then show ?case by simp
next
  case (Cons ev evs)
  then have "receive b ev s = s"
    by (cases ev) (simp_all add: handleOffer_def handleAnswer_def handleIceCandidate_def)
  with Cons show ?case by simp
qed

text \<open>
  Claim C5, amended. Every candidate received while the client has a peer connection is
  passed to \<open>addIceCandidate\<close> of that connection at once, whether or not the remote
  description has been applied, and the outcome of that one call is final. Nothing is
  buffered: handling an offer or an answer, which sets the remote description, makes no
  call of \<open>addIceCandidate\<close>. So over any sequence of relayed offers, answers and
  candidates the calls of \<open>addIceCandidate\<close> are the candidates received, one call
  each, in the order of receipt. While the client has no peer connection, every relayed
  message is dropped.
\<close>

theorem candidates_passed_on_in_receipt_order:
  "(peerConnectionRef s = Some pc \<longrightarrow>
      calls (handleIceCandidate b m s)
        = calls s @ [(pc, AddIceCandidate (candidate m),
                      addIceCandidate b (calls s) pc (candidate m))]
      \<and> candidateCalls (receiveAll b evs s)
        = candidateCalls s @ map (\<lambda>c. (pc, c)) (candidatesOf evs))
   \<and> (peerConnectionRef s = None \<longrightarrow>
      handleIceCandidate b m s = s \<and> receiveAll b evs s = s)
   \<and> candidateCalls (handleAnswer b am s) = candidateCalls s
   \<and> candidateCalls (handleOffer b om s) = candidateCalls s"
  by (simp add: handleIceCandidate_calls receiveAll_candidateCalls
        receiveAll_without_connection handleAnswer_candidateCalls handleOffer_candidateCalls)
     (simp add: handleIceCandidate_def)

theorem candidates_passed_on_in_receipt_order_witness:
  "peerConnectionRef offeringSession = Some 0
   \<and> \<not> remoteDescriptionApplied (calls offeringSession) 0
   \<and> candidateCalls offeringSession = []
   \<and> candidateCalls (receiveAll strictBrowser
        [RelayedCandidate \<lparr>candidate = ''c1'', candidate_from = ''xyz''\<rparr>,
         RelayedAnswer \<lparr>answer = ''answer-sdp'', answer_from = ''xyz''\<rparr>,
         RelayedCandidate \<lparr>candidate = ''c2'', candidate_from = ''xyz''\<rparr>]
        offeringSession)
       = [(0, ''c1''), (0, ''c2'')]
   \<and> calls (handleIceCandidate strictBrowser \<lparr>candidate = ''c1'', candidate_from = ''xyz''\<rparr>
              offeringSession)
       = calls offeringSession @ [(0, AddIceCandidate ''c1'', False)]
   \<and> peerConnectionRef (freshSession ''abc'') = None
   \<and> receiveAll strictBrowser
         [RelayedCandidate \<lparr>candidate = ''c1'', candidate_from = ''xyz''\<rparr>]
         (freshSession ''abc'')
       = freshSession ''abc''"
proof -
  have pc: "peerConnectionRef offeringSession = Some 0"
    by (simp add: offeringSession_def handleMatchFound_def matchFoundBody_def strictBrowser_def
          freshSession_def okBrowser_def logCall_def emit_def Let_def)
  have nr: "\<not> remoteDescriptionApplied (calls offeringSession) 0"
    by (simp add: offeringSession_def handleMatchFound_def matchFoundBody_def strictBrowser_def
          freshSession_def okBrowser_def logCall_def emit_def Let_def
          remoteDescriptionApplied_def)
  have cc: "candidateCalls offeringSession = []"
    by (simp add: candidateCalls_def offeringSession_def handleMatchFound_def
          matchFoundBody_def strictBrowser_def freshSession_def okBrowser_def
          logCall_def emit_def Let_def)
  have rej: "\<not> addIceCandidate strictBrowser (calls offeringSession) 0 ''c1''"
    using nr by (simp add: strictBrowser_def)
  have n: "peerConnectionRef (freshSession ''abc'') = None"
    by (simp add: freshSession_def)
  from candidates_passed_on_in_receipt_order
         [of offeringSession 0 strictBrowser
             "\<lparr>candidate = ''c1'', candidate_from = ''xyz''\<rparr>"
             "[RelayedCandidate \<lparr>candidate = ''c1'', candidate_from = ''xyz''\<rparr>,
               RelayedAnswer \<lparr>answer = ''answer-sdp'', answer_from = ''xyz''\<rparr>,
               RelayedCandidate \<lparr>candidate = ''c2'', candidate_from = ''xyz''\<rparr>]"
             "\<lparr>answer = ''answer-sdp'', answer_from = ''xyz''\<rparr>"
             "\<lparr>offer = ''o'', offer_from = ''xyz''\<rparr>"]
       candidates_passed_on_in_receipt_order
         [of "freshSession ''abc''" 0 strictBrowser
             "\<lparr>candidate = ''c1'', candidate_from = ''xyz''\<rparr>"
             "[RelayedCandidate \<lparr>candidate = ''c1'', candidate_from = ''xyz''\<rparr>]"
             "\<lparr>answer = ''answer-sdp'', answer_from = ''xyz''\<rparr>"
             "\<lparr>offer = ''o'', offer_from = ''xyz''\<rparr>"]
       pc nr cc rej n
  show ?thesis by simp
qed

subsection \<open>Errors while negotiating\<close>

lemma matchFoundBody_outcome:
  assumes "matchFoundBody b me partner s = (ok, s')"
  shows "(ok \<longrightarrow> failedCalls s' = failedCalls s)
       \<and> (\<not> ok \<longrightarrow> length (failedCalls s') = Suc (length (failedCalls s)))
       \<and> toasts s' = toasts s \<and> partnerId s' = partnerId s \<and> isChatting s' = isChatting s
       \<and> peerConnectionRef s'
           = (if newPeerConnection b (calls s) then Some (nextPc s) else peerConnectionRef s)"
proof -
  let ?s1 = "logCall (nextPc s) NewPeerConnection True
                   (s\<lparr>peerConnectionRef := Some (nextPc s), nextPc := Suc (nextPc s)\<rparr>)"
  let ?ts = "case localStreamRef ?s1 of None \<Rightarrow> [] | Some ts \<Rightarrow> ts"
  obtain ok2 s2 where a: "addTracks b (nextPc s) ?ts ?s1 = (ok2, s2)" by fastforce
  have f1: "failedCalls ?s1 = failedCalls s" "toasts ?s1 = toasts s"
     "partnerId ?s1 = partnerId s" "isChatting ?s1 = isChatting s"
     "peerConnectionRef ?s1 = Some (nextPc s)"
    by (simp_all add: failedCalls_def logCall_def)
  note k = addTracks_keeps[OF a] addTracks_failed[OF a]
  show ?thesis
    using assms a k f1
    by (auto simp: matchFoundBody_def Let_def failedCalls_def logCall_def emit_def
             split: if_splits promise.splits)
qed

lemma handlers_keep_session:
  "sessionKept s (handleOffer b om s) \<and> sessionKept s (handleAnswer b am s)
   \<and> sessionKept s (handleIceCandidate b cm s)"
  by (simp add: sessionKept_def handleOffer_def handleAnswer_def handleIceCandidate_def
        logCall_def unhandled_def emit_def Let_def split: option.splits promise.splits)

lemma endChat_isIdle: "isIdle (endChat s)"
  by (simp add: endChat_def cleanup_def isIdle_def logCall_def split: option.splits)

text \<open>
  The browser rejects \<open>createOffer\<close> while \<open>abc\<close> handles its match with \<open>xyz\<close>. The
  error is caught and shown, and the session stays as the handler had set it up:
  partner set, chatting, the new peer connection in place.
\<close>

theorem failed_offer_counterexample:
  "failedCalls (handleMatchFound noOfferBrowser ''xyz'' (freshSession ''abc''))
     = [(0, CreateOffer, False)]
   \<and> toasts (handleMatchFound noOfferBrowser ''xyz'' (freshSession ''abc''))
     = [''Failed to establish peer connection'']
   \<and> peerConnectionRef (handleMatchFound noOfferBrowser ''xyz'' (freshSession ''abc'')) = Some 0
   \<and> \<not> isIdle (handleMatchFound noOfferBrowser ''xyz'' (freshSession ''abc''))"
  by (simp add: handleMatchFound_def matchFoundBody_def noOfferBrowser_def okBrowser_def
        freshSession_def failedCalls_def isIdle_def logCall_def emit_def Let_def)

text \<open>
  Claim C9, amended. No negotiation error makes the session idle. A browser call that
  fails while \<open>handleMatchFound\<close> sets up the connection or creates and sends the offer
  is caught and shown to the user as the toast \<open>Failed to establish peer connection\<close>
  (and no toast is shown when no call fails); the partner id and the chatting flag stay
  as the handler set them before the error, and the peer connection it created stays in
  \<open>peerConnectionRef\<close>. Handling a relayed offer, answer or candidate, whether its
  browser calls succeed or fail (a remote description or a candidate the connection
  rejects), leaves the partner id, the matching and chatting flags and the peer
  connection as they were.
\<close>

theorem negotiation_errors_leave_session:
  assumes "socket s = Some (Some me)" and "me \<noteq> []"
  shows "(failedCalls (handleMatchFound b partner s) \<noteq> failedCalls s \<longrightarrow>
            toasts (handleMatchFound b partner s)
              = toasts s @ [''Failed to establish peer connection''])
       \<and> (failedCalls (handleMatchFound b partner s) = failedCalls s \<longrightarrow>
            toasts (handleMatchFound b partner s) = toasts s)
       \<and> partnerId (handleMatchFound b partner s) = Some partner
       \<and> isChatting (handleMatchFound b partner s)
       \<and> peerConnectionRef (handleMatchFound b partner s)
           = (if newPeerConnection b (calls s) then Some (nextPc s) else peerConnectionRef s)
       \<and> \<not> isIdle (handleMatchFound b partner s)
       \<and> sessionKept t (handleOffer b om t)
       \<and> sessionKept t (handleAnswer b am t)
       \<and> sessionKept t (handleIceCandidate b cm t)
       \<and> isIdle (handleOffer b om t) = isIdle t
       \<and> isIdle (handleAnswer b am t) = isIdle t
       \<and> isIdle (handleIceCandidate b cm t) = isIdle t"
proof -
  let ?s1 = "s\<lparr>partnerId := Some partner, isMatching := False, isChatting := True\<rparr>"
  obtain ok s2 where m: "matchFoundBody b me partner ?s1 = (ok, s2)" by fastforce
  have f: "failedCalls ?s1 = failedCalls s" by (simp add: failedCalls_def)
  have match: "(failedCalls (handleMatchFound b partner s) \<noteq> failedCalls s \<longrightarrow>
            toasts (handleMatchFound b partner s)
              = toasts s @ [''Failed to establish peer connection''])
       \<and> (failedCalls (handleMatchFound b partner s) = failedCalls s \<longrightarrow>
            toasts (handleMatchFound b partner s) = toasts s)
       \<and> partnerId (handleMatchFound b partner s) = Some partner
       \<and> isChatting (handleMatchFound b partner s)
       \<and> peerConnectionRef (handleMatchFound b partner s)
           = (if newPeerConnection b (calls s) then Some (nextPc s) else peerConnectionRef s)
       \<and> \<not> isIdle (handleMatchFound b partner s)"
    using matchFoundBody_outcome[OF m] f assms m
    by (cases ok) (auto simp: handleMatchFound_def Let_def isIdle_def failedCalls_def)
  note kept = handlers_keep_session[of t b om am cm]
  from kept have idle: "isIdle (handleOffer b om t) = isIdle t"
    "isIdle (handleAnswer b am t) = isIdle t" "isIdle (handleIceCandidate b cm t) = isIdle t"
    by (simp_all add: sessionKept_def isIdle_def)
  from match kept idle show ?thesis by simp
qed

theorem negotiation_errors_leave_session_witness:
  "failedCalls (handleMatchFound noOfferBrowser ''xyz'' (freshSession ''abc''))
     \<noteq> failedCalls (freshSession ''abc'')
   \<and> toasts (handleMatchFound noOfferBrowser ''xyz'' (freshSession ''abc''))
       = [''Failed to establish peer connection'']
   \<and> partnerId (handleMatchFound noOfferBrowser ''xyz'' (freshSession ''abc'')) = Some ''xyz''
   \<and> peerConnectionRef (handleMatchFound noOfferBrowser ''xyz'' (freshSession ''abc''))
       = Some 0
   \<and> failedCalls (handleAnswer noRemoteBrowser \<lparr>answer = ''a'', answer_from = ''xyz''\<rparr>
                    offeringSession)
       = [(0, SetRemoteDescription ''a'', False)]
   \<and> sessionKept offeringSession
        (handleAnswer noRemoteBrowser \<lparr>answer = ''a'', answer_from = ''xyz''\<rparr> offeringSession)
   \<and> \<not> isIdle (handleAnswer noRemoteBrowser \<lparr>answer = ''a'', answer_from = ''xyz''\<rparr>
                  offeringSession)"
proof -
  have h: "socket (freshSession ''abc'') = Some (Some ''abc'')" "''abc'' \<noteq> []"
    by (simp_all add: freshSession_def)
  have f1: "failedCalls (handleMatchFound noOfferBrowser ''xyz'' (freshSession ''abc''))
     \<noteq> failedCalls (freshSession ''abc'')"
    by (simp add: handleMatchFound_def matchFoundBody_def noOfferBrowser_def okBrowser_def
        freshSession_def failedCalls_def logCall_def emit_def Let_def)
  have f2: "failedCalls (handleAnswer noRemoteBrowser \<lparr>answer = ''a'', answer_from = ''xyz''\<rparr>
                    offeringSession)
       = [(0, SetRemoteDescription ''a'', False)]"
    by (simp add: handleAnswer_def noRemoteBrowser_def offeringSession_def handleMatchFound_def
        matchFoundBody_def strictBrowser_def okBrowser_def freshSession_def failedCalls_def
        logCall_def emit_def unhandled_def Let_def)
  have t: "toasts (freshSession ''abc'') = []" "calls (freshSession ''abc'') = []"
    "nextPc (freshSession ''abc'') = 0"
    by (simp_all add: freshSession_def)
  have np: "newPeerConnection noOfferBrowser []"
    by (simp add: noOfferBrowser_def okBrowser_def)
  have ni: "\<not> isIdle offeringSession"
    by (simp add: isIdle_def offeringSession_def handleMatchFound_def matchFoundBody_def
        strictBrowser_def okBrowser_def freshSession_def logCall_def emit_def Let_def)
  from negotiation_errors_leave_session
         [OF h, of noOfferBrowser "''xyz''" offeringSession
            "\<lparr>offer = ''o'', offer_from = ''xyz''\<rparr>"
            "\<lparr>answer = ''a'', answer_from = ''xyz''\<rparr>"
            "\<lparr>candidate = ''c'', candidate_from = ''xyz''\<rparr>"]
       negotiation_errors_leave_session
         [OF h, of noRemoteBrowser "''xyz''" offeringSession
            "\<lparr>offer = ''o'', offer_from = ''xyz''\<rparr>"
            "\<lparr>answer = ''a'', answer_from = ''xyz''\<rparr>"
            "\<lparr>candidate = ''c'', candidate_from = ''xyz''\<rparr>"]
       f1 f2 t np ni
  show ?thesis by simp
qed

text \<open>
  The handlers of offer, answer and candidate have no \<open>try\<close>: a rejected call ends the
  handler with a rejection nobody handles, no toast is shown and the connection stays.
\<close>

lemma handleOffer_rejection_unreported:
  "peerConnectionRef s = Some pc \<Longrightarrow> \<not> setRemoteDescription b (calls s) pc (offer m) \<Longrightarrow>
     handleOffer b m s = unhandled (logCall pc (SetRemoteDescription (offer m)) False s)
     \<and> toasts (handleOffer b m s) = toasts s
     \<and> peerConnectionRef (handleOffer b m s) = Some pc"
  by (simp add: handleOffer_def unhandled_def logCall_def)

section \<open>Properties of the rooms\<close>

subsection \<open>What the sweep does\<close>

lemma expireRoom_eq:
  "expireRoom now room db =
     (if shouldExpire now db room
      then db\<lparr>rooms := map (\<lambda>r. if r_id r = r_id room then endRoom now r else r) (rooms db)\<rparr>
      else db)"
  by (simp add: expireRoom_def shouldExpire_def endRoom_def)

lemma shouldExpire_rooms_update:
  "shouldExpire now (db\<lparr>rooms := x\<rparr>) room = shouldExpire now db room"
  by (simp add: shouldExpire_def joinedParticipants_def lastActiveTime_def)

lemma endRoom_simps:
  "r_id (endRoom now r) = r_id r" "endRoom now (endRoom now r) = endRoom now r"
  "r_status (endRoom now r) = Ended"
  by (simp_all add: endRoom_def)

lemma expireLoop_rooms:
  "expireLoop now rs db =
     db\<lparr>rooms := map (\<lambda>r. if \<exists>room\<in>set rs. r_id room = r_id r \<and> shouldExpire now db room
                           then endRoom now r else r) (rooms db)\<rparr>"
proof (induction rs arbitrary: db)
  case Nil
  then show ?case by simp
next
  case (Cons room rest)
  show ?case
  proof (cases "shouldExpire now db room")
    case True
    have "(\<lambda>r. if \<exists>x\<in>set rest. r_id x = r_id r \<and> shouldExpire now db x
                then endRoom now r else r)
            \<circ> (\<lambda>r. if r_id r = r_id room then endRoom now r else r)
          = (\<lambda>r. if \<exists>x\<in>set (room # rest). r_id x = r_id r \<and> shouldExpire now db x
                  then endRoom now r else r)"
      using True by (auto simp: fun_eq_iff endRoom_simps)
    with True show ?thesis
      by (simp add: Cons.IH expireRoom_eq shouldExpire_rooms_update)
  next
    case False
    then have "(\<lambda>r. if \<exists>x\<in>set rest. r_id x = r_id r \<and> shouldExpire now db x
                then endRoom now r else r)
          = (\<lambda>r. if \<exists>x\<in>set (room # rest). r_id x = r_id r \<and> shouldExpire now db x
                  then endRoom now r else r)"
      by (auto simp: fun_eq_iff)
    with False show ?thesis by (simp add: Cons.IH expireRoom_eq)
  qed
qed

text \<open>
  With one row per room id, the sweep ends exactly the rooms that are waiting or active,
  were created more than 10 minutes ago, have at most one joined participant and were
  last active more than 5 minutes ago: all four at once.
\<close>

lemma cleanupExpiredRooms_rooms:
  assumes "distinct (map r_id (rooms db))"
  shows "cleanupExpiredRooms now db =
     db\<lparr>rooms := map (\<lambda>r. if (r_status r = Waiting \<or> r_status r = Active)
                               \<and> r_created_at r < now - 10 * 60000
                               \<and> length (joinedParticipants db (r_id r)) \<le> 1
                               \<and> lastActiveTime db r < now - 5 * 60000
                           then endRoom now r else r) (rooms db)\<rparr>"
proof -
  have inj: "\<And>x y. x \<in> set (rooms db) \<Longrightarrow> y \<in> set (rooms db) \<Longrightarrow> r_id x = r_id y \<Longrightarrow> x = y"
    using assms by (meson distinct_map inj_onD)
  have "map (\<lambda>r. if \<exists>room\<in>set (roomsToExpire now db).
                       r_id room = r_id r \<and> shouldExpire now db room
                  then endRoom now r else r) (rooms db)
      = map (\<lambda>r. if (r_status r = Waiting \<or> r_status r = Active)
                               \<and> r_created_at r < now - 10 * 60000
                               \<and> length (joinedParticipants db (r_id r)) \<le> 1
                               \<and> lastActiveTime db r < now - 5 * 60000
                           then endRoom now r else r) (rooms db)"
  proof (rule map_cong[OF refl])
    fix r assume r: "r \<in> set (rooms db)"
    have "(\<exists>room\<in>set (roomsToExpire now db). r_id room = r_id r \<and> shouldExpire now db room)
        \<longleftrightarrow> ((r_status r = Waiting \<or> r_status r = Active)
                               \<and> r_created_at r < now - 10 * 60000
                               \<and> length (joinedParticipants db (r_id r)) \<le> 1
                               \<and> lastActiveTime db r < now - 5 * 60000)"
      using r inj by (auto simp: roomsToExpire_def shouldExpire_def)
    then show "(if \<exists>room\<in>set (roomsToExpire now db).
                     r_id room = r_id r \<and> shouldExpire now db room
          then endRoom now r else r) =
         (if (r_status r = Waiting \<or> r_status r = Active) \<and>
             r_created_at r < now - 10 * 60000 \<and>
             length (joinedParticipants db (r_id r)) \<le> 1 \<and>
             lastActiveTime db r < now - 5 * 60000
          then endRoom now r else r)" by simp
  qed
  then show ?thesis by (simp add: cleanupExpiredRooms_def expireLoop_rooms)
qed

lemma statusRank_le_Ended: "statusRank st \<le> 2"
  by (cases st) simp_all

text \<open>The sweep itself moves no room backward.\<close>

lemma cleanupExpiredRooms_forward:
  "list_all2 (\<lambda>r r'. r_id r' = r_id r \<and> statusRank (r_status r) \<le> statusRank (r_status r'))
     (rooms db) (rooms (cleanupExpiredRooms now db))"
  by (simp add: cleanupExpiredRooms_def expireLoop_rooms list_all2_map2 list_all2_same
        statusRank_le_Ended endRoom_simps)

text \<open>
  Claim C1. The room \<open>r1\<close> is active and 11 minutes old, with two joined participants.
  The card shows it as expired by age, and the sweep leaves it active: the sweep ends an
  old room only if it also has at most one joined participant and has been idle.
\<close>

theorem sweep_keeps_old_room_with_two_participants:
  "cleanupExpiredRooms 660000 twoJoinedStore = twoJoinedStore
   \<and> map r_status (rooms (cleanupExpiredRooms 660000 twoJoinedStore)) = [Active]
   \<and> getExpirationStatus 660000 (cardOf (exampleRoom Active None) 2)
       = Some ''Expired (>10min)''"
  by (simp add: cleanupExpiredRooms_def roomsToExpire_def expireRoom_def joinedParticipants_def
        twoJoinedStore_def exampleRoom_def participantRow_def activityRow_def cardOf_def
        getExpirationStatus_def Let_def)

text \<open>
  Claim C2. The room \<open>r1\<close> is waiting and 6 minutes old; only its host joined, and
  nothing happened since its creation. The card shows it as expired for inactivity, and
  the sweep leaves it waiting: the sweep only looks at rooms older than 10 minutes.
\<close>

theorem sweep_keeps_young_idle_room:
  "cleanupExpiredRooms 360000 hostOnlyStore = hostOnlyStore
   \<and> map r_status (rooms (cleanupExpiredRooms 360000 hostOnlyStore)) = [Waiting]
   \<and> getExpirationStatus 360000 (cardOf (exampleRoom Waiting None) 1)
       = Some ''Expired (inactive)''"
  by (simp add: cleanupExpiredRooms_def roomsToExpire_def expireRoom_def joinedParticipants_def
        hostOnlyStore_def exampleRoom_def participantRow_def activityRow_def cardOf_def
        getExpirationStatus_def Let_def)

subsection \<open>The status of a room moves forward only\<close>

lemma createRoom_rooms:
  "rooms (fst (createRoom now roomId uid g n pw db)) = rooms db
   \<or> (\<exists>r. r_status r = Waiting \<and> rooms (fst (createRoom now roomId uid g n pw db)) = rooms db @ [r])"
  by (auto simp: createRoom_def split: option.splits)

lemma joinRoom_rooms: "rooms (fst (joinRoom uid roomId pw db)) = rooms db"
  by (simp add: joinRoom_def setParticipantStatus_def split: option.splits)

lemma markAsBusy_rooms: "rooms (fst (markAsBusy uid roomId db)) = rooms db"
  by (simp add: markAsBusy_def setParticipantStatus_def)

text \<open>
  Claim C6. The room \<open>r1\<close> has ended. When the invited user \<open>u2\<close> opens the page of
  the room, \<open>joinRoom\<close> of the page sets the status of the room to active without
  looking at the status it had: the room moves from ended back to active.
\<close>

theorem page_join_reopens_ended_room:
  "map r_status (rooms endedRoomStore) = [Ended]
   \<and> (case pageJoinRoom 700000 (Some ''u2'') ''r1'' endedRoomStore of
         Inl e \<Rightarrow> False
       | Inr db \<Rightarrow> map r_status (rooms db) = [Active])"
  by (simp add: pageJoinRoom_def endedRoomStore_def exampleRoom_def participantRow_def)

subsection \<open>Joining a room from the panel\<close>

text \<open>
  Claim C7. When the room has a password and the password given is another one, or
  none, \<open>joinRoom\<close> ends with the error \<open>Incorrect password\<close> and the store is as
  before: no participant row and no activity row is changed.
\<close>

theorem joinRoom_wrong_password:
  assumes "single (filter (\<lambda>r. r_id r = roomId) (rooms db)) = Some room"
    and "r_password room = Some pw" and "pw \<noteq> []" and "password \<noteq> Some pw"
  shows "joinRoom currentUserId roomId password db = (db, [ToastError ''Incorrect password''])"
  using assms by (auto simp: joinRoom_def truthy_def orElse_def)

theorem joinRoom_wrong_password_witness:
  "joinRoom (Some ''u2'') ''r1'' (Some ''guess'') lockedRoomStore
     = (lockedRoomStore, [ToastError ''Incorrect password''])
   \<and> joinRoom (Some ''u2'') ''r1'' None lockedRoomStore
     = (lockedRoomStore, [ToastError ''Incorrect password''])"
proof -
  have s: "single (filter (\<lambda>r. r_id r = ''r1'') (rooms lockedRoomStore))
             = Some (exampleRoom Waiting (Some ''secret''))"
    by (simp add: lockedRoomStore_def exampleRoom_def)
  have p: "r_password (exampleRoom Waiting (Some ''secret'')) = Some ''secret''"
    by (simp add: exampleRoom_def)
  have "joinRoom (Some ''u2'') ''r1'' (Some ''guess'') lockedRoomStore
          = (lockedRoomStore, [ToastError ''Incorrect password''])"
    using joinRoom_wrong_password [OF s p, of "Some ''guess''" "Some ''u2''"] by simp
  moreover have "joinRoom (Some ''u2'') ''r1'' None lockedRoomStore
          = (lockedRoomStore, [ToastError ''Incorrect password''])"
    using joinRoom_wrong_password [OF s p, of None "Some ''u2''"] by simp
  ultimately show ?thesis by simp
qed

text \<open>
  Claim C8. The room \<open>r1\<close> has ended and has no password. \<open>joinRoom\<close> reads the room
  and does not look at its status: it marks \<open>u2\<close> as joined and opens the video page.
  The guard is in the card only, on the status the card last fetched: a card that still
  shows the room as waiting lets the join through, a card that shows it as ended stops it
  with \<open>This room has ended\<close>.
\<close>

theorem joinRoom_joins_ended_room:
  "map r_status (rooms endedRoomStore) = [Ended]
   \<and> joinRoom (Some ''u2'') ''r1'' None endedRoomStore
       = (endedRoomStore
            \<lparr>room_participants := [participantRow ''u1'' Joined, participantRow ''u2'' Joined]\<rparr>,
          [RouterPush ''/video-chat/r1''])
   \<and> handleJoin (cardOf (exampleRoom Waiting None) 1) (Some ''u2'') []
         endedRoomStore
       = (endedRoomStore
            \<lparr>room_participants := [participantRow ''u1'' Joined, participantRow ''u2'' Joined]\<rparr>,
          [RouterPush ''/video-chat/r1'', ClosePasswordModal])
   \<and> handleJoin (cardOf (exampleRoom Ended None) 1) (Some ''u2'') []
         endedRoomStore
       = (endedRoomStore, [ToastError ''This room has ended''])"
  by (simp add: joinRoom_def handleJoin_def setParticipantStatus_def truthy_def cardOf_def
        endedRoomStore_def exampleRoom_def participantRow_def activityRow_def)

end
